theory Spec2Isabelle
  imports Main "HOL-Library.Multiset" "HOL-Library.Sublist"
begin

section \<open>Python values shared by the two DAG modules\<close>

text \<open>
  Exceptions are values. Every constructor stands for a subclass of Python's
  \<open>Exception\<close>, so an \<open>except Exception\<close> clause catches each of them; the argument is the
  text \<open>str(e)\<close> gives. \<open>LibraryError\<close> stands for whatever a library call raises on its
  own (requests, zipfile, the Airflow metadata store).
\<close>

datatype exn =
    Exception string
  | ValueError string
  | RuntimeError string
  | KeyError string
  | FileNotFoundError string
  | CalledProcessError "string list" int
  | LibraryError string

section \<open>auto\_deploy\_impactu.py: the polling job\<close>

text \<open>
  The response of \<open>requests.get\<close>: \<open>raise_for_status\<close> either raises or returns, and
  \<open>response.json()["sha"]\<close> either raises (no JSON body, no such key) or gives the hash.
\<close>

record response =
  raise_for_status :: "exn option"
  json_sha :: "exn + string"

text \<open>
  What the function reads from outside: the HTTP call (by URL) and the Airflow
  \<open>Variable\<close> store (by key; \<open>None\<close> is the \<open>default_var\<close> of an unset variable).
\<close>

record deploy_env =
  requests_get :: "string \<Rightarrow> exn + response"
  Variable_get :: "string \<Rightarrow> exn + string option"

text \<open>The task instance's XCom store, written by \<open>ti.xcom_push(key=..., value=...)\<close>.\<close>

type_synonym xcom = "string \<rightharpoonup> string"

definition repo_url :: string where
  "repo_url = ''https://api.github.com/repos/omazapa/impactu_airflow/commits/main''"

text \<open>The body of the \<open>try\<close> block of \<open>check_for_updates\<close>, lines 28 to 46.\<close>

definition check_for_updates_try :: "deploy_env \<Rightarrow> xcom \<Rightarrow> (exn + bool) \<times> xcom" where
  "check_for_updates_try E x =
     (case requests_get E repo_url of
        Inl e \<Rightarrow> (Inl e, x)
      | Inr resp \<Rightarrow>
          (case raise_for_status resp of
             Some e \<Rightarrow> (Inl e, x)
           | None \<Rightarrow>
               (case json_sha resp of
                  Inl e \<Rightarrow> (Inl e, x)
                | Inr latest_commit \<Rightarrow>
                    (case Variable_get E ''impactu_last_deployed_commit'' of
                       Inl e \<Rightarrow> (Inl e, x)
                     | Inr last_deployed_commit \<Rightarrow>
                         if last_deployed_commit \<noteq> Some latest_commit
                         then (Inr True, x(''new_commit'' \<mapsto> latest_commit))
                         else (Inr False, x)))))"

text \<open>\<open>except Exception as e: ... return False\<close>, lines 48 to 50.\<close>

definition check_for_updates :: "deploy_env \<Rightarrow> xcom \<Rightarrow> (exn + bool) \<times> xcom" where
  "check_for_updates E x =
     (case check_for_updates_try E x of
        (Inl e, x') \<Rightarrow> (Inr False, x')
      | (Inr b, x') \<Rightarrow> (Inr b, x'))"

text \<open>The commit that was fetched, when all three steps of the fetch went through.\<close>

definition fetched_sha :: "deploy_env \<Rightarrow> string option" where
  "fetched_sha E =
     (case requests_get E repo_url of
        Inl e \<Rightarrow> None
      | Inr resp \<Rightarrow>
          (case raise_for_status resp of
             Some e \<Rightarrow> None
           | None \<Rightarrow> (case json_sha resp of Inl e \<Rightarrow> None | Inr sha \<Rightarrow> Some sha)))"


definition offline_deploy_env :: deploy_env where
  "offline_deploy_env =
     \<lparr> requests_get = (\<lambda>u. Inl (LibraryError ''Connection refused'')),
       Variable_get = (\<lambda>k. Inr None) \<rparr>"

section \<open>impactu\_airflow\_pr\_validator.py: data\<close>

text \<open>
  JSON values, as \<open>json.dump\<close> writes them and \<open>response.json()\<close> reads them. An object
  keeps its keys in insertion order, as a Python dict does.
\<close>

datatype json =
    JNull
  | JBool bool
  | JInt int
  | JStr string
  | JArr "json list"
  | JObj "(string \<times> json) list"

fun json_get :: "json \<Rightarrow> string \<Rightarrow> json option" where
  "json_get (JObj kvs) k = map_of kvs k"
| "json_get _ k = None"

text \<open>\<open>d[k] = v\<close> on a dict held as an association list: replace in place, else append.\<close>

fun dict_set :: "'k \<Rightarrow> 'v \<Rightarrow> ('k \<times> 'v) list \<Rightarrow> ('k \<times> 'v) list" where
  "dict_set k v [] = [(k, v)]"
| "dict_set k v ((k', v') # d) = (if k' = k then (k, v) # d else (k', v') # dict_set k v d)"

text \<open>
  The filesystem. A directory such as \<open>/tmp/airflow_pr_7\<close> is a tree: a map from the
  path of a file relative to the directory to the file's content. Paths of changed files
  are the relative, normalised paths the GitHub API returns. A file holds raw bytes or
  the document \<open>json.dump\<close> wrote; the textual layout of that document (indentation) is
  not modelled.
\<close>

datatype file_content = Bytes string | Json json

type_synonym tree = "string \<rightharpoonup> file_content"

type_synonym filesystem = "string \<rightharpoonup> tree"

text \<open>
  The trace records what a run did outside itself (HTTP requests, subprocesses) and each
  entry to a provisioning or check function of the module: it is the observable that
  "was never invoked" refers to.
\<close>

datatype event = Enter string | HttpGet string | Subprocess "string list"

record world =
  files :: filesystem
  trace :: "event list"

definition log :: "event \<Rightarrow> world \<Rightarrow> world" where
  "log ev w = w\<lparr>trace := trace w @ [ev]\<rparr>"

record completed_process =
  returncode :: int
  stdout :: string
  stderr :: string

text \<open>The fields of the GitHub answers that the module reads.\<close>

record pr_info =
  title :: string
  base_ref :: string
  head_ref :: string

text \<open>\<open>change_status\<close> is the key \<open>status\<close> of an entry of the changed-file list.\<close>

record pr_file =
  filename :: string
  change_status :: string
  raw_url :: string

type_synonym headers = "(string \<times> string) list"

text \<open>
  The result dict of a check: \<open>{"passed": [...], "failed": [{"file": f, "error": e}, ...]}\<close>
  for the syntax and structure stages, \<open>{"success": b}\<close> with an optional \<open>"error"\<close> for
  the import stage.
\<close>

datatype check_result =
    Results (passed: "string list") (failed: "(string \<times> string) list")
  | Import_results (success: bool) (import_error: "string option")

text \<open>
  The dict \<open>validation_report\<close>. The keys \<open>message\<close> and \<open>error\<close> are absent until they
  are assigned.
\<close>

record validation_report =
  pr_number :: int
  timestamp :: string
  status :: string
  checks :: "(string \<times> check_result) list"
  message :: "string option"
  error :: "string option"

text \<open>
  Everything outside the module. The four HTTP reads are keyed by URL and headers and
  stand for \<open>requests.get\<close>, \<open>raise_for_status\<close> and the decoding of the body together.
  The zipball is given as it is once unpacked: the entries of the top directory, each with
  its tree. \<open>subprocess_run\<close> is keyed by the argument vector; the executables named there
  exist, so the call itself returns a completed process.
\<close>

record env =
  now_isoformat :: string
  sys_executable :: string
  get_pr_info :: "string \<Rightarrow> headers \<Rightarrow> exn + pr_info"
  get_pr_files :: "string \<Rightarrow> headers \<Rightarrow> exn + pr_file list"
  get_zipball :: "string \<Rightarrow> headers \<Rightarrow> exn + (string \<times> (string \<rightharpoonup> string)) list"
  get_raw :: "string \<Rightarrow> headers \<Rightarrow> exn + string"
  subprocess_run :: "string list \<Rightarrow> completed_process"

section \<open>Strings and paths\<close>

definition startswith :: "string \<Rightarrow> string \<Rightarrow> bool" where
  "startswith s p = (take (length p) s = p)"

definition endswith :: "string \<Rightarrow> string \<Rightarrow> bool" where
  "endswith s p = (length p \<le> length s \<and> drop (length s - length p) s = p)"

text \<open>\<open>str(n)\<close> for an integer, in decimal.\<close>

definition digit :: "nat \<Rightarrow> char" where
  "digit d = ''0123456789'' ! d"

function str_nat :: "nat \<Rightarrow> string" where
  "str_nat n = (if n < 10 then [digit n] else str_nat (n div 10) @ [digit (n mod 10)])"
  by pat_completeness auto
termination
  by (relation "measure id") auto

declare str_nat.simps [simp del]

definition str_int :: "int \<Rightarrow> string" where
  "str_int i = (if i < 0 then ''-'' @ str_nat (nat (- i)) else str_nat (nat i))"

text \<open>\<open>os.path.join\<close> of two components on POSIX.\<close>

definition path_join :: "string \<Rightarrow> string \<Rightarrow> string" where
  "path_join a b =
     (if startswith b ''/'' then b
      else if a = [] \<or> endswith a ''/'' then a @ b
      else a @ ''/'' @ b)"

text \<open>
  \<open>str(e)\<close>. The command of a \<open>CalledProcessError\<close> is shown as the repr of a list of
  strings that hold no quote and no backslash.
\<close>

definition repr_list :: "string list \<Rightarrow> string" where
  "repr_list xs =
     ''['' @ concat (map (\<lambda>(i, x). (if i = 0 then [] else '', '') @ [CHR 0x27] @ x @ [CHR 0x27])
                        (enumerate 0 xs)) @ '']''"

fun str_exn :: "exn \<Rightarrow> string" where
  "str_exn (Exception m) = m"
| "str_exn (ValueError m) = m"
| "str_exn (RuntimeError m) = m"
| "str_exn (KeyError m) = m"
| "str_exn (FileNotFoundError m) = m"
| "str_exn (CalledProcessError cmd rc) =
     ''Command '' @ [CHR 0x27] @ repr_list cmd @ [CHR 0x27]
       @ '' returned non-zero exit status '' @ str_int rc @ ''.''"
| "str_exn (LibraryError m) = m"

section \<open>Filesystem operations\<close>

definition os_path_exists :: "filesystem \<Rightarrow> string \<Rightarrow> bool" where
  "os_path_exists f d = (f d \<noteq> None)"

definition rmtree :: "string \<Rightarrow> filesystem \<Rightarrow> filesystem" where
  "rmtree d f = f(d := None)"

text \<open>\<open>os.makedirs\<close> of a directory that does not exist.\<close>

definition makedirs :: "string \<Rightarrow> filesystem \<Rightarrow> filesystem" where
  "makedirs d f = f(d \<mapsto> Map.empty)"

text \<open>The tree of a directory, empty when the directory does not exist.\<close>

definition tree_of :: "filesystem \<Rightarrow> string \<Rightarrow> tree" where
  "tree_of f d = (case f d of None \<Rightarrow> Map.empty | Some t \<Rightarrow> t)"

text \<open>\<open>shutil.copytree(source_dir, base_dir, dirs_exist_ok=True)\<close>.\<close>

definition copytree :: "(string \<rightharpoonup> string) \<Rightarrow> string \<Rightarrow> filesystem \<Rightarrow> filesystem" where
  "copytree source d f = f(d \<mapsto> tree_of f d ++ (map_option Bytes \<circ> source))"

text \<open>
  \<open>open(os.path.join(d, p), 'w')\<close> followed by a write: fails when the directory \<open>d\<close>
  does not exist.
\<close>

definition open_write :: "string \<Rightarrow> string \<Rightarrow> file_content \<Rightarrow> world \<Rightarrow> exn + world" where
  "open_write d p c w =
     (case files w d of
        None \<Rightarrow> Inl (FileNotFoundError (path_join d p))
      | Some t \<Rightarrow> Inr (w\<lparr>files := (files w)(d \<mapsto> t(p \<mapsto> c))\<rparr>))"

text \<open>The same after \<open>os.makedirs(os.path.dirname(full_path), exist_ok=True)\<close>.\<close>

definition makedirs_write :: "string \<Rightarrow> string \<Rightarrow> file_content \<Rightarrow> world \<Rightarrow> world" where
  "makedirs_write d p c w = w\<lparr>files := (files w)(d \<mapsto> (tree_of (files w) d)(p \<mapsto> c))\<rparr>"

section \<open>Helper functions of the validator\<close>

definition REPO_OWNER :: string where "REPO_OWNER = ''colav''"

definition REPO_NAME :: string where "REPO_NAME = ''impactu_airflow''"

definition GITHUB_API_BASE :: string where "GITHUB_API_BASE = ''https://api.github.com''"

definition repos_url :: string where
  "repos_url = GITHUB_API_BASE @ ''/repos/'' @ REPO_OWNER @ ''/'' @ REPO_NAME"

definition fetch_pr_info :: "env \<Rightarrow> int \<Rightarrow> headers \<Rightarrow> world \<Rightarrow> (exn + pr_info) \<times> world" where
  "fetch_pr_info E n hdrs w =
     (let url = repos_url @ ''/pulls/'' @ str_int n
      in (get_pr_info E url hdrs, log (HttpGet url) w))"

definition fetch_pr_files :: "env \<Rightarrow> int \<Rightarrow> headers \<Rightarrow> world \<Rightarrow> (exn + pr_file list) \<times> world" where
  "fetch_pr_files E n hdrs w =
     (let url = repos_url @ ''/pulls/'' @ str_int n @ ''/files''
      in (get_pr_files E url hdrs, log (HttpGet url) w))"

definition download_branch_archive ::
  "env \<Rightarrow> string \<Rightarrow> string \<Rightarrow> headers \<Rightarrow> world \<Rightarrow> (exn + unit) \<times> world" where
  "download_branch_archive E branch base_dir hdrs w =
     (let url = repos_url @ ''/zipball/'' @ branch; w1 = log (HttpGet url) w
      in case get_zipball E url hdrs of
           Inl e \<Rightarrow> (Inl e, w1)
         | Inr extracted_dirs \<Rightarrow>
             (case extracted_dirs of
                [] \<Rightarrow> (Inl (ValueError (''Empty archive for branch '' @ branch)), w1)
              | (name, source_dir) # rest \<Rightarrow>
                  (Inr (), w1\<lparr>files := copytree source_dir base_dir (files w1)\<rparr>)))"

definition download_pr_file ::
  "env \<Rightarrow> string \<Rightarrow> string \<Rightarrow> string \<Rightarrow> headers \<Rightarrow> world \<Rightarrow> (exn + unit) \<times> world" where
  "download_pr_file E file_path url base_dir hdrs w =
     (let w1 = log (HttpGet url) w
      in case get_raw E url hdrs of
           Inl e \<Rightarrow> (Inl e, w1)
         | Inr content \<Rightarrow> (Inr (), makedirs_write base_dir file_path (Bytes content) w1))"

text \<open>\<open>subprocess.run(argv, ...)\<close>, without and with \<open>check=True\<close>.\<close>

definition run :: "env \<Rightarrow> string list \<Rightarrow> world \<Rightarrow> completed_process \<times> world" where
  "run E argv w = (subprocess_run E argv, log (Subprocess argv) w)"

definition run_checked :: "env \<Rightarrow> string list \<Rightarrow> world \<Rightarrow> (exn + unit) \<times> world" where
  "run_checked E argv w =
     (let (result, w1) = run E argv w
      in if returncode result \<noteq> 0
         then (Inl (CalledProcessError argv (returncode result)), w1)
         else (Inr (), w1))"

text \<open>
  \<open>requirements\<close> is the name of the manifest inside \<open>base_dir\<close>; the source passes the
  joined path and asks \<open>os.path.exists\<close>.
\<close>

definition setup_virtual_environment ::
  "env \<Rightarrow> string \<Rightarrow> string \<Rightarrow> world \<Rightarrow> (exn + string \<times> string) \<times> world" where
  "setup_virtual_environment E base_dir requirements w =
     (let w0 = log (Enter ''setup_virtual_environment'') w;
          venv_dir = path_join base_dir ''venv'';
          python_exe = path_join (path_join venv_dir ''bin'') ''python'';
          requirements_path = path_join base_dir requirements
      in if tree_of (files w0) base_dir requirements = None
         then (Inr (venv_dir, sys_executable E), w0)
         else
           case run_checked E [''uv'', ''venv'', venv_dir] w0 of
             (Inl e, w1) \<Rightarrow> (Inl e, w1)
           | (Inr u, w1) \<Rightarrow>
               (case run_checked E
                       [''uv'', ''pip'', ''install'', ''--python'', python_exe, ''-r'',
                        requirements_path] w1 of
                  (Inl e, w2) \<Rightarrow> (Inl e, w2)
                | (Inr u, w2) \<Rightarrow>
                    (case run_checked E
                            [''uv'', ''pip'', ''install'', ''--python'', python_exe,
                             ''apache-airflow==3.1.5'', ''apache-airflow-providers-fab'',
                             ''structlog==25.5.0''] w2 of
                       (Inl e, w3) \<Rightarrow> (Inl e, w3)
                     | (Inr u, w3) \<Rightarrow> (Inr (venv_dir, python_exe), w3))))"

definition initialize_test_database :: "env \<Rightarrow> string \<Rightarrow> world \<Rightarrow> (exn + unit) \<times> world" where
  "initialize_test_database E python_exe w =
     (let w0 = log (Enter ''initialize_test_database'') w;
          (result, w1) = run E [python_exe, ''-m'', ''airflow'', ''db'', ''migrate''] w0
      in if returncode result \<noteq> 0
         then (Inl (RuntimeError ''Failed to initialize Airflow database''), w1)
         else (Inr (), w1))"

section \<open>Validation checks\<close>

text \<open>
  The loop of \<open>validate_syntax\<close>, lines 181 to 199: one \<open>py_compile\<close> per file, the file
  appended to \<open>passed\<close> or, with the captured stderr, to \<open>failed\<close>.
\<close>

fun validate_syntax_loop ::
  "env \<Rightarrow> string list \<Rightarrow> string \<Rightarrow> string \<Rightarrow> check_result \<Rightarrow> world \<Rightarrow> check_result \<times> world" where
  "validate_syntax_loop E [] base_dir python_exe results w = (results, w)"
| "validate_syntax_loop E (dag_file # rest) base_dir python_exe results w =
     (let file_path = path_join base_dir dag_file;
          (result, w1) = run E [python_exe, ''-m'', ''py_compile'', file_path] w;
          results1 =
            (if returncode result = 0
             then Results (passed results @ [dag_file]) (failed results)
             else Results (passed results) (failed results @ [(dag_file, stderr result)]))
      in validate_syntax_loop E rest base_dir python_exe results1 w1)"

definition validate_syntax ::
  "env \<Rightarrow> string list \<Rightarrow> string \<Rightarrow> string \<Rightarrow> world \<Rightarrow> check_result \<times> world" where
  "validate_syntax E dag_files base_dir python_exe w =
     validate_syntax_loop E dag_files base_dir python_exe (Results [] [])
       (log (Enter ''validate_syntax'') w)"

text \<open>
  The two scripts handed to \<open>python -c\<close> are run by the interpreter of the environment
  and are opaque here; each is named by a tag and the values the f-string interpolates.
\<close>

definition import_check_script :: "string \<Rightarrow> string" where
  "import_check_script dag_folder = ''<import check> dag_folder='' @ dag_folder"

definition structure_check_script :: "string \<Rightarrow> string \<Rightarrow> string" where
  "structure_check_script dag_file dag_folder =
     ''<structure check> dag_file='' @ dag_file @ '' dag_folder='' @ dag_folder"

definition validate_imports :: "env \<Rightarrow> string \<Rightarrow> string \<Rightarrow> world \<Rightarrow> check_result \<times> world" where
  "validate_imports E base_dir python_exe w =
     (let w0 = log (Enter ''validate_imports'') w;
          check_script = import_check_script (path_join base_dir ''dags'');
          (result, w1) = run E [python_exe, ''-c'', check_script] w0
      in if returncode result \<noteq> 0
         then (Import_results False (Some (stderr result)), w1)
         else (Import_results True None, w1))"

fun validate_dag_structure_loop ::
  "env \<Rightarrow> string list \<Rightarrow> string \<Rightarrow> string \<Rightarrow> check_result \<Rightarrow> world \<Rightarrow> check_result \<times> world" where
  "validate_dag_structure_loop E [] base_dir python_exe results w = (results, w)"
| "validate_dag_structure_loop E (dag_file # rest) base_dir python_exe results w =
     (let validation_script =
            structure_check_script (path_join base_dir dag_file) (path_join base_dir ''dags'');
          (result, w1) = run E [python_exe, ''-c'', validation_script] w;
          results1 =
            (if returncode result = 0
             then Results (passed results @ [dag_file]) (failed results)
             else Results (passed results) (failed results @ [(dag_file, stderr result)]))
      in validate_dag_structure_loop E rest base_dir python_exe results1 w1)"

definition validate_dag_structure ::
  "env \<Rightarrow> string list \<Rightarrow> string \<Rightarrow> string \<Rightarrow> world \<Rightarrow> check_result \<times> world" where
  "validate_dag_structure E dag_files base_dir python_exe w =
     validate_dag_structure_loop E dag_files base_dir python_exe (Results [] [])
       (log (Enter ''validate_dag_structure'') w)"

section \<open>The report as JSON\<close>

fun check_to_json :: "check_result \<Rightarrow> json" where
  "check_to_json (Results p f) =
     JObj [(''passed'', JArr (map JStr p)),
           (''failed'',
            JArr (map (\<lambda>(file, err). JObj [(''file'', JStr file), (''error'', JStr err)]) f))]"
| "check_to_json (Import_results ok err) =
     JObj ((''success'', JBool ok)
           # (case err of None \<Rightarrow> [] | Some text \<Rightarrow> [(''error'', JStr text)]))"

text \<open>What \<open>json.dump(validation_report, f, indent=2)\<close> writes.\<close>

definition to_json :: "validation_report \<Rightarrow> json" where
  "to_json r =
     JObj ([(''pr_number'', JInt (pr_number r)),
            (''timestamp'', JStr (timestamp r)),
            (''status'', JStr (status r)),
            (''checks'', JObj (map (\<lambda>(stage, c). (stage, check_to_json c)) (checks r)))]
           @ (case message r of None \<Rightarrow> [] | Some m \<Rightarrow> [(''message'', JStr m)])
           @ (case error r of None \<Rightarrow> [] | Some m \<Rightarrow> [(''error'', JStr m)]))"

definition report_file :: string where
  "report_file = ''validation_report.json''"

section \<open>validate\_pr\<close>

text \<open>
  The code inside the \<open>try\<close> block is modelled in the parts its comments mark. Each
  part returns the exception it raised or its value, the report as mutated so far, and
  the world. The report travels with a raise because the \<open>except\<close> clause reads it.
\<close>

text \<open>The overlay loop, lines 412 to 419.\<close>

fun apply_pr_changes ::
  "env \<Rightarrow> pr_file list \<Rightarrow> string \<Rightarrow> headers \<Rightarrow> world \<Rightarrow> (exn + unit) \<times> world" where
  "apply_pr_changes E [] base_dir hdrs w = (Inr (), w)"
| "apply_pr_changes E (pr_file # rest) base_dir hdrs w =
     (if change_status pr_file \<noteq> ''removed''
      then (case download_pr_file E (filename pr_file) (raw_url pr_file) base_dir hdrs w of
              (Inl e, w1) \<Rightarrow> (Inl e, w1)
            | (Inr u, w1) \<Rightarrow> apply_pr_changes E rest base_dir hdrs w1)
      else apply_pr_changes E rest base_dir hdrs w)"

definition changed_dags_of :: "pr_file list \<Rightarrow> string list" where
  "changed_dags_of pr_files =
     map filename
       (filter (\<lambda>f. startswith (filename f) ''dags/'' \<and> endswith (filename f) ''.py'') pr_files)"

text \<open>
  The fetch phase, lines 408 to 419: the base branch is unpacked into \<open>base_dir\<close>, then the
  changed files are laid over it.
\<close>

definition fetch_phase ::
  "env \<Rightarrow> string \<Rightarrow> pr_file list \<Rightarrow> string \<Rightarrow> headers \<Rightarrow> world \<Rightarrow> (exn + unit) \<times> world" where
  "fetch_phase E branch pr_files base_dir hdrs w =
     (case download_branch_archive E branch base_dir hdrs w of
        (Inl e, w1) \<Rightarrow> (Inl e, w1)
      | (Inr u, w1) \<Rightarrow> apply_pr_changes E pr_files base_dir hdrs w1)"

definition airflowignore :: string where
  "airflowignore = ''venv/'' @ [CHR 0x0A] @ ''.git/'' @ [CHR 0x0A] @ ''__pycache__/'' @ [CHR 0x0A]"

text \<open>Environment setup, lines 426 to 438. The \<open>env\<close> dict of lines 430 to 435 is not modelled.\<close>

definition environment_setup :: "env \<Rightarrow> string \<Rightarrow> world \<Rightarrow> (exn + string) \<times> world" where
  "environment_setup E base_dir w =
     (case setup_virtual_environment E base_dir ''requirements.txt'' w of
        (Inl e, w1) \<Rightarrow> (Inl e, w1)
      | (Inr (venv_dir, python_exe), w1) \<Rightarrow>
          (case initialize_test_database E python_exe w1 of
             (Inl e, w2) \<Rightarrow> (Inl e, w2)
           | (Inr u, w2) \<Rightarrow> (Inr python_exe, w2)))"

text \<open>Validation phase and success, lines 443 to 487.\<close>

definition validation_phase ::
  "env \<Rightarrow> string list \<Rightarrow> string \<Rightarrow> string \<Rightarrow> validation_report \<Rightarrow> world
     \<Rightarrow> (exn + unit) \<times> validation_report \<times> world" where
  "validation_phase E changed_dags base_dir python_exe report w =
     (let (syntax_results, w1) = validate_syntax E changed_dags base_dir python_exe w;
          report1 = report\<lparr>checks := dict_set ''syntax'' syntax_results (checks report)\<rparr>
      in if failed syntax_results \<noteq> []
         then (Inl (Exception (''Syntax errors in ''
                     @ str_nat (length (failed syntax_results)) @ '' file(s)'')),
               report1\<lparr>status := ''failed'', message := Some ''Syntax validation failed''\<rparr>, w1)
         else
           let (import_results, w2) = validate_imports E base_dir python_exe w1;
               report2 = report1\<lparr>checks := dict_set ''imports'' import_results (checks report1)\<rparr>
           in if \<not> success import_results
              then (Inl (Exception ''DAG import errors detected''),
                    report2\<lparr>status := ''failed'', message := Some ''Import validation failed''\<rparr>,
                    w2)
              else
                let (structure_results, w3) =
                      validate_dag_structure E changed_dags base_dir python_exe w2;
                    report3 =
                      report2\<lparr>checks := dict_set ''structure'' structure_results (checks report2)\<rparr>
                in if failed structure_results \<noteq> []
                   then (Inl (Exception (''Structure errors in ''
                               @ str_nat (length (failed structure_results)) @ '' file(s)'')),
                         report3\<lparr>status := ''failed'',
                                 message := Some ''Structure validation failed''\<rparr>, w3)
                   else
                     let report4 =
                           report3\<lparr>status := ''success'',
                                   message := Some ''All validations passed''\<rparr>
                     in case open_write base_dir report_file (Json (to_json report4)) w3 of
                          Inl e \<Rightarrow> (Inl e, report4, w3)
                        | Inr w4 \<Rightarrow> (Inr (), report4, w4))"

text \<open>
  The \<open>try\<close> block, lines 369 to 487. \<open>setup_logger\<close> and the other \<open>print\<close> calls write
  to standard output only and are left out.
\<close>

definition validate_pr_try ::
  "env \<Rightarrow> int \<Rightarrow> headers \<Rightarrow> string \<Rightarrow> validation_report \<Rightarrow> world
     \<Rightarrow> (exn + unit) \<times> validation_report \<times> world" where
  "validate_pr_try E n hdrs base_dir report w =
     (let f0 = (if os_path_exists (files w) base_dir then rmtree base_dir (files w) else files w);
          w0 = w\<lparr>files := makedirs base_dir f0\<rparr>
      in case fetch_pr_info E n hdrs w0 of
           (Inl e, w1) \<Rightarrow> (Inl e, report, w1)
         | (Inr info, w1) \<Rightarrow>
             (case fetch_pr_files E n hdrs w1 of
                (Inl e, w2) \<Rightarrow> (Inl e, report, w2)
              | (Inr pr_files, w2) \<Rightarrow>
                  let changed_dags = changed_dags_of pr_files
                  in if changed_dags = []
                     then (Inr (),
                           report\<lparr>status := ''skipped'',
                                  message := Some ''No DAG files modified''\<rparr>, w2)
                     else
                       case fetch_phase E (base_ref info) pr_files base_dir hdrs w2 of
                         (Inl e, w4) \<Rightarrow> (Inl e, report, w4)
                       | (Inr u, w4) \<Rightarrow>
                           (case open_write base_dir ''.airflowignore''
                                   (Bytes airflowignore) w4 of
                              Inl e \<Rightarrow> (Inl e, report, w4)
                            | Inr w5 \<Rightarrow>
                                (case environment_setup E base_dir w5 of
                                   (Inl e, w6) \<Rightarrow> (Inl e, report, w6)
                                 | (Inr python_exe, w6) \<Rightarrow>
                                     validation_phase E changed_dags base_dir python_exe
                                       report w6))))"

definition base_dir_of :: "int \<Rightarrow> string" where
  "base_dir_of n = ''/tmp/airflow_pr_'' @ str_int n"

definition headers_of :: "string option \<Rightarrow> headers" where
  "headers_of github_token =
     (case github_token of
        None \<Rightarrow> []
      | Some t \<Rightarrow> if t = [] then [] else [(''Authorization'', ''token '' @ t)])"

text \<open>
  \<open>validate_pr\<close>. The two arguments are \<open>conf.get('pr_number')\<close> and
  \<open>conf.get('github_token')\<close>. The \<open>except Exception\<close> clause, lines 489 to 504, sets
  \<open>status\<close> and \<open>error\<close>, writes the report and raises again; an exception raised by the
  write replaces the one being handled.
\<close>

definition validate_pr ::
  "env \<Rightarrow> int option \<Rightarrow> string option \<Rightarrow> world \<Rightarrow> (exn + validation_report) \<times> world" where
  "validate_pr E conf_pr_number github_token w =
     (case conf_pr_number of
        None \<Rightarrow> (Inl (ValueError ''Missing required parameter: pr_number''), w)
      | Some n \<Rightarrow>
          if n = 0 then (Inl (ValueError ''Missing required parameter: pr_number''), w)
          else
            let hdrs = headers_of github_token;
                base_dir = base_dir_of n;
                report = \<lparr> pr_number = n, timestamp = now_isoformat E, status = ''running'',
                           checks = [], message = None, error = None \<rparr>
            in case validate_pr_try E n hdrs base_dir report w of
                 (Inr u, report1, w1) \<Rightarrow> (Inr report1, w1)
               | (Inl e, report1, w1) \<Rightarrow>
                   let report2 = report1\<lparr>status := ''error'', error := Some (str_exn e)\<rparr>
                   in case open_write base_dir report_file (Json (to_json report2)) w1 of
                        Inl e2 \<Rightarrow> (Inl e2, w1)
                      | Inr w2 \<Rightarrow> (Inl e, w2))"

section \<open>Observations on a run\<close>

text \<open>The functions of the module a run entered, in order.\<close>

fun entered_of :: "event \<Rightarrow> string list" where
  "entered_of (Enter f) = [f]"
| "entered_of (HttpGet u) = []"
| "entered_of (Subprocess argv) = []"

definition entered :: "world \<Rightarrow> string list" where
  "entered w = concat (map entered_of (trace w))"

text \<open>The compile check of one file, as \<open>validate_syntax\<close> runs it, and what it yields.\<close>

definition py_compile :: "env \<Rightarrow> string \<Rightarrow> string \<Rightarrow> string \<Rightarrow> completed_process" where
  "py_compile E base_dir python_exe dag_file =
     subprocess_run E [python_exe, ''-m'', ''py_compile'', path_join base_dir dag_file]"

definition compiles :: "env \<Rightarrow> string \<Rightarrow> string \<Rightarrow> string \<Rightarrow> bool" where
  "compiles E base_dir python_exe dag_file = (returncode (py_compile E base_dir python_exe dag_file) = 0)"

definition syntax_failure :: "env \<Rightarrow> string \<Rightarrow> string \<Rightarrow> string \<Rightarrow> string \<times> string" where
  "syntax_failure E base_dir python_exe dag_file =
     (dag_file, stderr (py_compile E base_dir python_exe dag_file))"

text \<open>A check result reports a failure: a non-empty \<open>failed\<close> list, or \<open>success\<close> false.\<close>

fun reports_failure :: "check_result \<Rightarrow> bool" where
  "reports_failure (Results p f) = (f \<noteq> [])"
| "reports_failure (Import_results ok err) = (\<not> ok)"

text \<open>The functions \<open>validate_pr\<close> calls after the fetch, in the order of the source.\<close>

definition pipeline :: "string list" where
  "pipeline = [''setup_virtual_environment'', ''initialize_test_database'',
               ''validate_syntax'', ''validate_imports'', ''validate_dag_structure'']"

definition skipped_report :: "validation_report \<Rightarrow> validation_report" where
  "skipped_report r = r\<lparr>status := ''skipped'', message := Some ''No DAG files modified''\<rparr>"

definition pulls_url :: "int \<Rightarrow> string" where
  "pulls_url n = repos_url @ ''/pulls/'' @ str_int n"

text \<open>The content of \<open>validation_report.json\<close> in the workspace of a pull request.\<close>

definition persisted :: "world \<Rightarrow> int \<Rightarrow> file_content option" where
  "persisted w n = tree_of (files w) (base_dir_of n) report_file"

text \<open>The functions entered between two worlds of one run.\<close>

definition calls :: "world \<Rightarrow> world \<Rightarrow> string list" where
  "calls w w' = drop (length (entered w)) (entered w')"

definition initial_report :: "env \<Rightarrow> int \<Rightarrow> validation_report" where
  "initial_report E n =
     \<lparr> pr_number = n, timestamp = now_isoformat E, status = ''running'',
       checks = [], message = None, error = None \<rparr>"

definition error_report :: "exn \<Rightarrow> validation_report \<Rightarrow> validation_report" where
  "error_report e r = r\<lparr>status := ''error'', error := Some (str_exn e)\<rparr>"

text \<open>A key of the persisted report, and the result dict of a stage inside it.\<close>

definition persisted_field :: "world \<Rightarrow> int \<Rightarrow> string \<Rightarrow> json option" where
  "persisted_field w n k = (case persisted w n of Some (Json j) \<Rightarrow> json_get j k | _ \<Rightarrow> None)"

definition persisted_check :: "world \<Rightarrow> int \<Rightarrow> string \<Rightarrow> json option" where
  "persisted_check w n stage =
     (case persisted_field w n ''checks'' of Some c \<Rightarrow> json_get c stage | None \<Rightarrow> None)"

definition json_reports_failure :: "json \<Rightarrow> bool" where
  "json_reports_failure c =
     ((case json_get c ''failed'' of Some (JArr (x # xs)) \<Rightarrow> True | _ \<Rightarrow> False)
      \<or> json_get c ''success'' = Some (JBool False))"


section \<open>Concrete inputs\<close>

text \<open>
  An environment in which every request succeeds, the base branch holds \<open>dags/old.py\<close>
  and has no \<open>requirements.txt\<close>, and a subprocess fails exactly when its argument vector
  is listed.
\<close>

definition demo_env :: "pr_file list \<Rightarrow> string list list \<Rightarrow> env" where
  "demo_env pr_files failing =
     \<lparr> now_isoformat = ''2025-06-01T12:00:00'',
       sys_executable = ''/usr/bin/python3'',
       get_pr_info = (\<lambda>u h. Inr \<lparr> title = ''Add DAG'', base_ref = ''main'', head_ref = ''feature'' \<rparr>),
       get_pr_files = (\<lambda>u h. Inr pr_files),
       get_zipball = (\<lambda>u h. Inr [(''colav-impactu_airflow-0a1b2c3'', [''dags/old.py'' \<mapsto> ''old''])]),
       get_raw = (\<lambda>u h. Inr (''new '' @ u)),
       subprocess_run = (\<lambda>argv.
          if argv \<in> set failing
          then \<lparr> returncode = 1, stdout = [], stderr = ''SyntaxError: invalid syntax'' \<rparr>
          else \<lparr> returncode = 0, stdout = [], stderr = [] \<rparr>) \<rparr>"

definition compile_a :: "string list" where
  "compile_a = [''/usr/bin/python3'', ''-m'', ''py_compile'', ''/tmp/airflow_pr_7/dags/a.py'']"

definition import_check_7 :: "string list" where
  "import_check_7 = [''/usr/bin/python3'', ''-c'', import_check_script ''/tmp/airflow_pr_7/dags'']"

definition dag_a :: pr_file where
  "dag_a = \<lparr> filename = ''dags/a.py'', change_status = ''modified'', raw_url = ''raw/a'' \<rparr>"

definition dag_old :: pr_file where
  "dag_old = \<lparr> filename = ''dags/old.py'', change_status = ''removed'', raw_url = ''raw/old'' \<rparr>"

definition readme :: pr_file where
  "readme = \<lparr> filename = ''README.md'', change_status = ''modified'', raw_url = ''raw/readme'' \<rparr>"

definition empty_world :: world where
  "empty_world = \<lparr> files = Map.empty, trace = [] \<rparr>"


definition stale_world :: world where
  "stale_world = \<lparr> files = [''/tmp/airflow_pr_7'' \<mapsto> [''dags/stale.py'' \<mapsto> Bytes ''stale'']],
                    trace = [] \<rparr>"

section \<open>The polling job: results\<close>




text \<open>
  C9. \<open>check_for_updates\<close> never propagates an exception, and whenever the request, the
  status check, the read of the \<open>sha\<close> field or the read of the persisted variable raises,
  it returns \<open>False\<close> and pushes nothing to XCom.
\<close>

theorem check_for_updates_catches:
  "(\<forall>e. fst (check_for_updates E x) \<noteq> Inl e)
   \<and> (fetched_sha E = None \<or> (\<exists>e. Variable_get E ''impactu_last_deployed_commit'' = Inl e)
        \<longrightarrow> check_for_updates E x = (Inr False, x))"
  by (auto simp: check_for_updates_def check_for_updates_try_def fetched_sha_def
      split: sum.splits option.splits prod.splits)

theorem check_for_updates_catches_witness:
  "fetched_sha offline_deploy_env = None
   \<and> check_for_updates offline_deploy_env Map.empty = (Inr False, Map.empty)"
proof -
  have f: "fetched_sha offline_deploy_env = None"
    by (simp add: fetched_sha_def offline_deploy_env_def)
  with check_for_updates_catches [of offline_deploy_env Map.empty] show ?thesis
    by simp
qed

section \<open>The validator: what each step leaves behind\<close>

lemma files_log [simp]: "files (log ev w) = files w"
  by (simp add: log_def)

lemma entered_log [simp]: "entered (log ev w) = entered w @ entered_of ev"
  by (simp add: log_def entered_def)

lemma files_run [simp]: "files (snd (run E argv w)) = files w"
  by (simp add: run_def)

lemma entered_run [simp]: "entered (snd (run E argv w)) = entered w"
  by (simp add: run_def)

lemma files_run_checked [simp]: "files (snd (run_checked E argv w)) = files w"
  by (simp add: run_checked_def case_prod_unfold Let_def)

lemma entered_run_checked [simp]: "entered (snd (run_checked E argv w)) = entered w"
  by (simp add: run_checked_def case_prod_unfold Let_def)

lemma files_validate_syntax_loop [simp]:
  "files (snd (validate_syntax_loop E dags d py r w)) = files w"
  by (induction dags arbitrary: r w) (simp_all add: case_prod_unfold Let_def)

lemma entered_validate_syntax_loop [simp]:
  "entered (snd (validate_syntax_loop E dags d py r w)) = entered w"
  by (induction dags arbitrary: r w) (simp_all add: case_prod_unfold Let_def)

lemma files_validate_dag_structure_loop [simp]:
  "files (snd (validate_dag_structure_loop E dags d py r w)) = files w"
  by (induction dags arbitrary: r w) (simp_all add: case_prod_unfold Let_def)

lemma entered_validate_dag_structure_loop [simp]:
  "entered (snd (validate_dag_structure_loop E dags d py r w)) = entered w"
  by (induction dags arbitrary: r w) (simp_all add: case_prod_unfold Let_def)

lemma files_validate_syntax [simp]: "files (snd (validate_syntax E dags d py w)) = files w"
  by (simp add: validate_syntax_def)

lemma entered_validate_syntax [simp]:
  "entered (snd (validate_syntax E dags d py w)) = entered w @ [''validate_syntax'']"
  by (simp add: validate_syntax_def)

lemma files_validate_imports [simp]: "files (snd (validate_imports E d py w)) = files w"
  by (simp add: validate_imports_def case_prod_unfold Let_def)

lemma entered_validate_imports [simp]:
  "entered (snd (validate_imports E d py w)) = entered w @ [''validate_imports'']"
  by (simp add: validate_imports_def case_prod_unfold Let_def)

lemma files_validate_dag_structure [simp]:
  "files (snd (validate_dag_structure E dags d py w)) = files w"
  by (simp add: validate_dag_structure_def)

lemma entered_validate_dag_structure [simp]:
  "entered (snd (validate_dag_structure E dags d py w)) = entered w @ [''validate_dag_structure'']"
  by (simp add: validate_dag_structure_def)

lemma files_setup_virtual_environment [simp]:
  "files (snd (setup_virtual_environment E d req w)) = files w"
  by (simp add: setup_virtual_environment_def case_prod_unfold Let_def split: sum.splits)

lemma entered_setup_virtual_environment [simp]:
  "entered (snd (setup_virtual_environment E d req w)) = entered w @ [''setup_virtual_environment'']"
  by (simp add: setup_virtual_environment_def case_prod_unfold Let_def split: sum.splits)

lemma files_initialize_test_database [simp]:
  "files (snd (initialize_test_database E py w)) = files w"
  by (simp add: initialize_test_database_def case_prod_unfold Let_def)

lemma entered_initialize_test_database [simp]:
  "entered (snd (initialize_test_database E py w)) = entered w @ [''initialize_test_database'']"
  by (simp add: initialize_test_database_def case_prod_unfold Let_def)

lemma files_environment_setup [simp]:
  "files (snd (environment_setup E d w)) = files w"
  by (simp add: environment_setup_def case_prod_unfold split: sum.splits)

lemma validate_syntax_loop_results:
  "fst (validate_syntax_loop E dags d py (Results p f) w) =
     Results (p @ filter (compiles E d py) dags)
             (f @ map (syntax_failure E d py) (filter (\<lambda>x. \<not> compiles E d py x) dags))"
  by (induction dags arbitrary: p f w)
     (simp_all add: case_prod_unfold Let_def run_def compiles_def py_compile_def syntax_failure_def)

lemma validate_syntax_results:
  "fst (validate_syntax E dags d py w) =
     Results (filter (compiles E d py) dags)
             (map (syntax_failure E d py) (filter (\<lambda>x. \<not> compiles E d py x) dags))"
  by (simp add: validate_syntax_def validate_syntax_loop_results)

lemma validate_dag_structure_loop_Results:
  "\<exists>p' f'. fst (validate_dag_structure_loop E dags d py (Results p f) w) = Results p' f'"
  by (induction dags arbitrary: p f w) (simp_all add: case_prod_unfold Let_def)

lemma validate_dag_structure_Results:
  "\<exists>p f. fst (validate_dag_structure E dags d py w) = Results p f"
  by (simp add: validate_dag_structure_def validate_dag_structure_loop_Results)

lemma validate_imports_Import_results:
  "\<exists>ok err. fst (validate_imports E d py w) = Import_results ok err"
  by (auto simp: validate_imports_def case_prod_unfold Let_def)

lemma failed_validate_syntax:
  "(failed (fst (validate_syntax E dags d py w)) \<noteq> []) = reports_failure (fst (validate_syntax E dags d py w))"
  by (simp add: validate_syntax_results)

lemma failed_validate_dag_structure:
  "(failed (fst (validate_dag_structure E dags d py w)) \<noteq> []) = reports_failure (fst (validate_dag_structure E dags d py w))"
  using validate_dag_structure_Results [of E dags d py w] by auto

lemma success_validate_imports:
  "(\<not> success (fst (validate_imports E d py w))) = reports_failure (fst (validate_imports E d py w))"
  using validate_imports_Import_results [of E d py w] by auto

text \<open>What the validation phase can leave behind.\<close>

lemma open_write_Some:
  "files w d = Some t \<Longrightarrow> open_write d p c w = Inr (w\<lparr>files := (files w)(d \<mapsto> t(p \<mapsto> c))\<rparr>)"
  by (simp add: open_write_def)

lemma entered_files_update [simp]: "entered (w\<lparr>files := f\<rparr>) = entered w"
  by (simp add: entered_def)

lemma validation_phase_outcome:
  assumes run: "validation_phase E dags d py r w = (res, r', w')"
    and fresh: "checks r = []"
    and dir: "files w d = Some t"
  shows "pr_number r' = pr_number r \<and> timestamp r' = timestamp r \<and> error r' = error r \<and>
    ((\<exists>s m. reports_failure s \<and> checks r' = [(''syntax'', s)]
          \<and> entered w' = entered w @ [''validate_syntax'']
          \<and> res = Inl (Exception m) \<and> status r' = ''failed''
          \<and> message r' = Some ''Syntax validation failed'' \<and> files w' = files w)
     \<or> (\<exists>s i m. \<not> reports_failure s \<and> reports_failure i
          \<and> checks r' = [(''syntax'', s), (''imports'', i)]
          \<and> entered w' = entered w @ [''validate_syntax'', ''validate_imports'']
          \<and> res = Inl (Exception m) \<and> status r' = ''failed''
          \<and> message r' = Some ''Import validation failed'' \<and> files w' = files w)
     \<or> (\<exists>s i c m. \<not> reports_failure s \<and> \<not> reports_failure i \<and> reports_failure c
          \<and> checks r' = [(''syntax'', s), (''imports'', i), (''structure'', c)]
          \<and> entered w' = entered w @ [''validate_syntax'', ''validate_imports'', ''validate_dag_structure'']
          \<and> res = Inl (Exception m) \<and> status r' = ''failed''
          \<and> message r' = Some ''Structure validation failed'' \<and> files w' = files w)
     \<or> (\<exists>s i c. \<not> reports_failure s \<and> \<not> reports_failure i \<and> \<not> reports_failure c
          \<and> checks r' = [(''syntax'', s), (''imports'', i), (''structure'', c)]
          \<and> entered w' = entered w @ [''validate_syntax'', ''validate_imports'', ''validate_dag_structure'']
          \<and> res = Inr () \<and> status r' = ''success''
          \<and> message r' = Some ''All validations passed''
          \<and> files w' = (files w)(d \<mapsto> t(report_file \<mapsto> Json (to_json r')))))"
proof -
  define s where "s = fst (validate_syntax E dags d py w)"
  define w1 where "w1 = snd (validate_syntax E dags d py w)"
  define i where "i = fst (validate_imports E d py w1)"
  define w2 where "w2 = snd (validate_imports E d py w1)"
  define c where "c = fst (validate_dag_structure E dags d py w2)"
  define w3 where "w3 = snd (validate_dag_structure E dags d py w2)"
  have fs: "(failed s \<noteq> []) = reports_failure s"
    and fi: "(\<not> success i) = reports_failure i"
    and fc: "(failed c \<noteq> []) = reports_failure c"
    unfolding s_def i_def c_def
    by (rule failed_validate_syntax success_validate_imports failed_validate_dag_structure)+
  have e1: "entered w1 = entered w @ [''validate_syntax'']" and f1: "files w1 = files w"
    by (simp_all add: w1_def)
  have e2: "entered w2 = entered w1 @ [''validate_imports'']" and f2: "files w2 = files w1"
    by (simp_all add: w2_def)
  have e3: "entered w3 = entered w2 @ [''validate_dag_structure'']" and f3: "files w3 = files w2"
    by (simp_all add: w3_def)
  have unfolded: "validation_phase E dags d py r w =
     (if failed s \<noteq> []
      then (Inl (Exception (''Syntax errors in '' @ str_nat (length (failed s)) @ '' file(s)'')),
            r\<lparr>checks := [(''syntax'', s)], status := ''failed'',
               message := Some ''Syntax validation failed''\<rparr>, w1)
      else if \<not> success i
      then (Inl (Exception ''DAG import errors detected''),
            r\<lparr>checks := [(''syntax'', s), (''imports'', i)], status := ''failed'',
               message := Some ''Import validation failed''\<rparr>, w2)
      else if failed c \<noteq> []
      then (Inl (Exception (''Structure errors in '' @ str_nat (length (failed c)) @ '' file(s)'')),
            r\<lparr>checks := [(''syntax'', s), (''imports'', i), (''structure'', c)],
               status := ''failed'', message := Some ''Structure validation failed''\<rparr>, w3)
      else (Inr (),
            r\<lparr>checks := [(''syntax'', s), (''imports'', i), (''structure'', c)],
               status := ''success'', message := Some ''All validations passed''\<rparr>,
            w3\<lparr>files := (files w3)(d \<mapsto> t(report_file \<mapsto> Json (to_json
               (r\<lparr>checks := [(''syntax'', s), (''imports'', i), (''structure'', c)],
                  status := ''success'', message := Some ''All validations passed''\<rparr>))))\<rparr>))"
    using fresh dir f1 f2 f3
    by (simp add: validation_phase_def case_prod_unfold Let_def open_write_Some
        s_def w1_def i_def w2_def c_def w3_def)
  consider (a) "reports_failure s"
    | (b) "\<not> reports_failure s" "reports_failure i"
    | (c) "\<not> reports_failure s" "\<not> reports_failure i" "reports_failure c"
    | (d) "\<not> reports_failure s" "\<not> reports_failure i" "\<not> reports_failure c"
    by blast
  then show ?thesis
  proof cases
    case a
    with run unfolded fs e1 f1 show ?thesis by auto
  next
    case b
    with run unfolded fs fi e1 e2 f1 f2 show ?thesis by auto
  next
    case c
    with run unfolded fs fi fc e1 e2 e3 f1 f2 f3 show ?thesis by auto
  next
    case d
    with run unfolded fs fi fc e1 e2 e3 f1 f2 f3 show ?thesis by auto
  qed
qed

lemma files_fetch_pr_info [simp]: "files (snd (fetch_pr_info E n h w)) = files w"
  by (simp add: fetch_pr_info_def Let_def)

lemma entered_fetch_pr_info [simp]: "entered (snd (fetch_pr_info E n h w)) = entered w"
  by (simp add: fetch_pr_info_def Let_def)

lemma files_fetch_pr_files [simp]: "files (snd (fetch_pr_files E n h w)) = files w"
  by (simp add: fetch_pr_files_def Let_def)

lemma entered_fetch_pr_files [simp]: "entered (snd (fetch_pr_files E n h w)) = entered w"
  by (simp add: fetch_pr_files_def Let_def)

lemma entered_download_branch_archive [simp]:
  "entered (snd (download_branch_archive E b d h w)) = entered w"
  by (simp add: download_branch_archive_def Let_def split: sum.splits list.splits)

lemma entered_download_pr_file [simp]:
  "entered (snd (download_pr_file E p u d h w)) = entered w"
  by (simp add: download_pr_file_def Let_def makedirs_write_def split: sum.splits)

lemma entered_apply_pr_changes [simp]:
  "entered (snd (apply_pr_changes E prs d h w)) = entered w"
proof (induction prs arbitrary: w)
  case Nil
  show ?case by simp
next
  case (Cons f prs)
  show ?case
  proof (cases "download_pr_file E (filename f) (raw_url f) d h w")
    case (Pair a w1)
    have "entered w1 = entered w"
      using entered_download_pr_file [of E "filename f" "raw_url f" d h w] Pair by simp
    with Pair Cons show ?thesis
      by (simp split: sum.splits)
  qed
qed

lemma entered_fetch_phase [simp]:
  "entered (snd (fetch_phase E b prs d h w)) = entered w"
proof (cases "download_branch_archive E b d h w")
  case (Pair a w1)
  have "entered w1 = entered w"
    using entered_download_branch_archive [of E b d h w] Pair by simp
  with Pair show ?thesis
    by (simp add: fetch_phase_def split: sum.splits)
qed

text \<open>Files of other directories are never touched; the directory itself stays.\<close>

lemma download_branch_archive_keeps:
  "files w d \<noteq> None \<Longrightarrow> files (snd (download_branch_archive E b d h w)) d \<noteq> None"
  by (simp add: download_branch_archive_def Let_def copytree_def split: sum.splits list.splits)

lemma download_branch_archive_other:
  "d' \<noteq> d \<Longrightarrow> files (snd (download_branch_archive E b d h w)) d' = files w d'"
  by (simp add: download_branch_archive_def Let_def copytree_def split: sum.splits list.splits)

lemma download_pr_file_keeps:
  "files w d \<noteq> None \<Longrightarrow> files (snd (download_pr_file E p u d h w)) d \<noteq> None"
  by (simp add: download_pr_file_def Let_def makedirs_write_def split: sum.splits)

lemma download_pr_file_other:
  "d' \<noteq> d \<Longrightarrow> files (snd (download_pr_file E p u d h w)) d' = files w d'"
  by (simp add: download_pr_file_def Let_def makedirs_write_def split: sum.splits)

lemma apply_pr_changes_keeps:
  "files w d \<noteq> None \<Longrightarrow> files (snd (apply_pr_changes E prs d h w)) d \<noteq> None"
proof (induction prs arbitrary: w)
  case Nil
  then show ?case by simp
next
  case (Cons f prs)
  show ?case
  proof (cases "download_pr_file E (filename f) (raw_url f) d h w")
    case (Pair a w1)
    have "files w1 d \<noteq> None"
      using download_pr_file_keeps [OF Cons.prems, of E "filename f" "raw_url f" h] Pair by simp
    with Pair Cons show ?thesis
      by (simp split: sum.splits)
  qed
qed

lemma apply_pr_changes_other:
  "d' \<noteq> d \<Longrightarrow> files (snd (apply_pr_changes E prs d h w)) d' = files w d'"
proof (induction prs arbitrary: w)
  case Nil
  then show ?case by simp
next
  case (Cons f prs)
  show ?case
  proof (cases "download_pr_file E (filename f) (raw_url f) d h w")
    case (Pair a w1)
    have "files w1 d' = files w d'"
      using download_pr_file_other [OF Cons.prems, of E "filename f" "raw_url f" h w] Pair by simp
    with Pair Cons show ?thesis
      by (simp split: sum.splits)
  qed
qed

lemma fetch_phase_keeps:
  assumes "files w d \<noteq> None"
  shows "files (snd (fetch_phase E b prs d h w)) d \<noteq> None"
proof (cases "download_branch_archive E b d h w")
  case (Pair a w1)
  have "files w1 d \<noteq> None"
    using download_branch_archive_keeps [OF assms, of E b h] Pair by simp
  with Pair apply_pr_changes_keeps [of w1 d E prs h] show ?thesis
    by (simp add: fetch_phase_def split: sum.splits)
qed

lemma fetch_phase_other:
  assumes "d' \<noteq> d"
  shows "files (snd (fetch_phase E b prs d h w)) d' = files w d'"
proof (cases "download_branch_archive E b d h w")
  case (Pair a w1)
  have "files w1 d' = files w d'"
    using download_branch_archive_other [OF assms, of E b h w] Pair by simp
  with Pair apply_pr_changes_other [OF assms, of E prs h w1] show ?thesis
    by (simp add: fetch_phase_def split: sum.splits)
qed

lemma environment_setup_calls:
  assumes run: "environment_setup E d w = (a, w2)"
  shows "files w2 = files w"
    and "\<exists>k. entered w2 = entered w @ k \<and> prefix k (take 2 pipeline)
           \<and> (\<forall>py. a = Inr py \<longrightarrow> k = take 2 pipeline)"
proof -
  show "files w2 = files w"
    using files_environment_setup [of E d w] run by simp
  obtain a0 w1 where s: "setup_virtual_environment E d ''requirements.txt'' w = (a0, w1)"
    by (cases "setup_virtual_environment E d ''requirements.txt'' w")
  have e1: "entered w1 = entered w @ [''setup_virtual_environment'']"
    using entered_setup_virtual_environment [of E d "''requirements.txt''" w] s by simp
  show "\<exists>k. entered w2 = entered w @ k \<and> prefix k (take 2 pipeline)
           \<and> (\<forall>py. a = Inr py \<longrightarrow> k = take 2 pipeline)"
  proof (cases a0)
    case (Inl e)
    with run s have "a = Inl e" "w2 = w1"
      by (simp_all add: environment_setup_def)
    with e1 show ?thesis
      by (simp add: pipeline_def)
  next
    case (Inr v)
    obtain venv_dir python_exe where v: "v = (venv_dir, python_exe)" by (cases v)
    obtain a1 w1' where i: "initialize_test_database E python_exe w1 = (a1, w1')"
      by (cases "initialize_test_database E python_exe w1")
    have e2: "entered w1' = entered w1 @ [''initialize_test_database'']"
      using entered_initialize_test_database [of E python_exe w1] i by simp
    have "w2 = w1'"
      using run s Inr v i by (cases a1) (simp_all add: environment_setup_def)
    with e1 e2 show ?thesis
      by (simp add: pipeline_def)
  qed
qed

lemma trace_fetch_pr_info:
  "trace (snd (fetch_pr_info E n h w)) = trace w @ [HttpGet (repos_url @ ''/pulls/'' @ str_int n)]"
  by (simp add: fetch_pr_info_def Let_def log_def)

lemma trace_fetch_pr_files:
  "trace (snd (fetch_pr_files E n h w)) =
     trace w @ [HttpGet (repos_url @ ''/pulls/'' @ str_int n @ ''/files'')]"
  by (simp add: fetch_pr_files_def Let_def log_def)

lemma fst_fetch_pr_info: "fst (fetch_pr_info E n h w) = get_pr_info E (repos_url @ ''/pulls/'' @ str_int n) h"
  by (simp add: fetch_pr_info_def Let_def)

lemma fst_fetch_pr_files:
  "fst (fetch_pr_files E n h w) = get_pr_files E (repos_url @ ''/pulls/'' @ str_int n @ ''/files'') h"
  by (simp add: fetch_pr_files_def Let_def)

lemma clean_step:
  "makedirs d (if os_path_exists f d then rmtree d f else f) = f(d \<mapsto> Map.empty)"
  by (simp add: makedirs_def rmtree_def)

lemma validation_phase_files:
  assumes "validation_phase E dags d py r w = (res, r', w')" and "files w d = Some t"
  shows "files w' = files w \<or> (\<exists>c. files w' = (files w)(d \<mapsto> t(report_file \<mapsto> c)))"
proof -
  define w1 where "w1 = snd (validate_syntax E dags d py w)"
  define w2 where "w2 = snd (validate_imports E d py w1)"
  define w3 where "w3 = snd (validate_dag_structure E dags d py w2)"
  have f: "files w1 = files w" "files w2 = files w" "files w3 = files w"
    by (simp_all add: w1_def w2_def w3_def)
  have "w' = w1 \<or> w' = w2 \<or> w' = w3 \<or> (\<exists>c. open_write d report_file c w3 = Inr w')"
    using assms(1) f assms(2)
    unfolding validation_phase_def case_prod_unfold Let_def w1_def [symmetric]
      w2_def [symmetric] w3_def [symmetric]
    by (simp add: open_write_Some split: if_splits) blast
  then show ?thesis
    using f assms(2) by (auto simp: open_write_Some)
qed

lemma validation_phase_frame:
  assumes "validation_phase E dags d py r w = (res, r', w')" and "files w d = Some t"
  shows "(\<exists>t'. files w' d = Some t') \<and> (\<forall>d'. d' \<noteq> d \<longrightarrow> files w' d' = files w d')"
  using validation_phase_files [OF assms] assms(2) by auto

lemma validate_pr_try_outcome:
  assumes run: "validate_pr_try E n h d r w = (res, r', w')"
  shows "((\<exists>t. files w' d = Some t) \<and> (\<forall>d'. d' \<noteq> d \<longrightarrow> files w' d' = files w d')) \<and>
    ((\<exists>e k. res = Inl e \<and> r' = r \<and> entered w' = entered w @ k \<and> prefix k (take 2 pipeline))
     \<or> (\<exists>info prs. res = Inr () \<and> r' = skipped_report r
          \<and> get_pr_info E (pulls_url n) h = Inr info
          \<and> get_pr_files E (pulls_url n @ ''/files'') h = Inr prs
          \<and> changed_dags_of prs = []
          \<and> files w' d = Some Map.empty
          \<and> trace w' = trace w @ [HttpGet (pulls_url n), HttpGet (pulls_url n @ ''/files'')])
     \<or> (\<exists>dags py w6 t6. validation_phase E dags d py r w6 = (res, r', w')
          \<and> files w6 d = Some t6 \<and> (\<forall>d'. d' \<noteq> d \<longrightarrow> files w6 d' = files w d')
          \<and> entered w6 = entered w @ take 2 pipeline))"
    (is "?frame w' \<and> (?early \<or> ?skip \<or> ?phase)")
proof -
  define w0 where "w0 = w\<lparr>files := (files w)(d \<mapsto> Map.empty)\<rparr>"
  have w0: "files w0 d = Some Map.empty" "\<And>d'. d' \<noteq> d \<Longrightarrow> files w0 d' = files w d'"
    "entered w0 = entered w" "trace w0 = trace w"
    by (simp_all add: w0_def)
  obtain a1 w1 where s1: "fetch_pr_info E n h w0 = (a1, w1)" by (cases "fetch_pr_info E n h w0")
  have w1: "files w1 = files w0" "entered w1 = entered w0"
    "trace w1 = trace w0 @ [HttpGet (pulls_url n)]"
    using files_fetch_pr_info [of E n h w0] entered_fetch_pr_info [of E n h w0]
      trace_fetch_pr_info [of E n h w0] s1 by (simp_all add: pulls_url_def)
  have a1: "get_pr_info E (pulls_url n) h = a1"
    using fst_fetch_pr_info [of E n h w0] s1 by (simp add: pulls_url_def)
  obtain a2 w2 where s2: "fetch_pr_files E n h w1 = (a2, w2)" by (cases "fetch_pr_files E n h w1")
  have w2: "files w2 = files w1" "entered w2 = entered w1"
    "trace w2 = trace w1 @ [HttpGet (pulls_url n @ ''/files'')]"
    using files_fetch_pr_files [of E n h w1] entered_fetch_pr_files [of E n h w1]
      trace_fetch_pr_files [of E n h w1] s2 by (simp_all add: pulls_url_def)
  have a2: "get_pr_files E (pulls_url n @ ''/files'') h = a2"
    using fst_fetch_pr_files [of E n h w1] s2 by (simp add: pulls_url_def)
  have frame2: "?frame w2" and e2: "entered w2 = entered w"
    using w0 w1 w2 by simp_all
  have unfolded: "validate_pr_try E n h d r w =
     (case a1 of
        Inl e \<Rightarrow> (Inl e, r, w1)
      | Inr info \<Rightarrow>
          (case a2 of
             Inl e \<Rightarrow> (Inl e, r, w2)
           | Inr prs \<Rightarrow>
               if changed_dags_of prs = [] then (Inr (), skipped_report r, w2)
               else
                 case fetch_phase E (base_ref info) prs d h w2 of
                   (Inl e, w4) \<Rightarrow> (Inl e, r, w4)
                 | (Inr u, w4) \<Rightarrow>
                     (case open_write d ''.airflowignore'' (Bytes airflowignore) w4 of
                        Inl e \<Rightarrow> (Inl e, r, w4)
                      | Inr w5 \<Rightarrow>
                          (case environment_setup E d w5 of
                             (Inl e, w6) \<Rightarrow> (Inl e, r, w6)
                           | (Inr py, w6) \<Rightarrow> validation_phase E (changed_dags_of prs) d py r w6))))"
    using s1 s2 unfolding validate_pr_try_def clean_step w0_def [symmetric] skipped_report_def Let_def
    by (cases a1; cases a2) simp_all
  show ?thesis
  proof (cases a1)
    case (Inl e)
    with run unfolded have "res = Inl e" "r' = r" "w' = w1" by simp_all
    moreover have "?frame w1" "entered w1 = entered w" using w0 w1 by simp_all
    ultimately have "?frame w'" ?early by simp_all
    then show ?thesis by blast
  next
    case info: (Inr info)
    show ?thesis
    proof (cases a2)
      case (Inl e)
      with info run unfolded have "res = Inl e" "r' = r" "w' = w2" by simp_all
      with frame2 e2 have "?frame w'" ?early by simp_all
      then show ?thesis by blast
    next
      case prs: (Inr prs)
      show ?thesis
      proof (cases "changed_dags_of prs = []")
        case True
        with info prs run unfolded have "res = Inr ()" "r' = skipped_report r" "w' = w2"
          by simp_all
        moreover have "files w2 d = Some Map.empty"
          "trace w2 = trace w @ [HttpGet (pulls_url n), HttpGet (pulls_url n @ ''/files'')]"
          using w0 w1 w2 by simp_all
        ultimately have "?frame w'" ?skip using frame2 a1 a2 info prs True by simp_all
        then show ?thesis by blast
      next
        case False
        obtain a4 w4 where s4: "fetch_phase E (base_ref info) prs d h w2 = (a4, w4)"
          by (cases "fetch_phase E (base_ref info) prs d h w2")
        have "files w2 d \<noteq> None" using w0 w1 w2 by simp
        from fetch_phase_keeps [OF this, of E "base_ref info" prs h]
        obtain t4 where t4: "files w4 d = Some t4" using s4 by auto
        have o4: "\<And>d'. d' \<noteq> d \<Longrightarrow> files w4 d' = files w d'"
          using fetch_phase_other [of _ d E "base_ref info" prs h w2] s4 w0 w1 w2 by simp
        have e4: "entered w4 = entered w"
          using entered_fetch_phase [of E "base_ref info" prs d h w2] s4 e2 by simp
        have frame4: "?frame w4" using t4 o4 by simp
        show ?thesis
        proof (cases a4)
          case (Inl e)
          with False info prs run unfolded s4 have "res = Inl e" "r' = r" "w' = w4" by simp_all
          with frame4 e4 have "?frame w'" ?early by simp_all
          then show ?thesis by blast
        next
          case u: (Inr u)
          define w5 where
            "w5 = w4\<lparr>files := (files w4)(d \<mapsto> t4(''.airflowignore'' \<mapsto> Bytes airflowignore))\<rparr>"
          have s5: "open_write d ''.airflowignore'' (Bytes airflowignore) w4 = Inr w5"
            using t4 by (simp add: open_write_Some w5_def)
          have w5: "files w5 d = Some (t4(''.airflowignore'' \<mapsto> Bytes airflowignore))"
            "\<And>d'. d' \<noteq> d \<Longrightarrow> files w5 d' = files w d'" "entered w5 = entered w"
            using o4 e4 by (simp_all add: w5_def)
          obtain a6 w6 where s6: "environment_setup E d w5 = (a6, w6)"
            by (cases "environment_setup E d w5")
          from environment_setup_calls [OF s6] w5
          obtain k where w6: "files w6 = files w5" "entered w6 = entered w @ k"
            "prefix k (take 2 pipeline)" "\<And>py. a6 = Inr py \<Longrightarrow> k = take 2 pipeline"
            by auto
          have frame6: "?frame w6" using w5 w6 by simp
          show ?thesis
          proof (cases a6)
            case (Inl e)
            with False info prs u run unfolded s4 s5 s6
            have "res = Inl e" "r' = r" "w' = w6" by simp_all
            with frame6 w6 have "?frame w'" ?early by auto
            then show ?thesis by blast
          next
            case py: (Inr py)
            have vp: "validation_phase E (changed_dags_of prs) d py r w6 = (res, r', w')"
              using False info prs u py run unfolded s4 s5 s6 by simp
            have e6: "entered w6 = entered w @ take 2 pipeline"
              using w6 py by simp
            have t6: "files w6 d = Some (t4(''.airflowignore'' \<mapsto> Bytes airflowignore))"
              "\<forall>d'. d' \<noteq> d \<longrightarrow> files w6 d' = files w d'"
              using w5 w6 by simp_all
            have "?phase" using vp e6 t6 by blast
            moreover have "?frame w'"
              using validation_phase_frame [OF vp t6(1)] t6(2) by simp
            ultimately show ?thesis by blast
          qed
        qed
      qed
    qed
  qed
qed

lemma calls_append: "entered w' = entered w @ k \<Longrightarrow> calls w w' = k"
  by (simp add: calls_def)

lemma persisted_written:
  "files w' = (files w)(base_dir_of n \<mapsto> t(report_file \<mapsto> c)) \<Longrightarrow> persisted w' n = Some c"
  by (simp add: persisted_def tree_of_def)

text \<open>The two ways out of \<open>validate_pr\<close> once \<open>pr_number\<close> is accepted.\<close>

lemma validate_pr_exits:
  assumes run: "validate_pr E (Some n) tok w = (res, w')" and n: "n \<noteq> 0"
  obtains (returned) r1 where
      "validate_pr_try E n (headers_of tok) (base_dir_of n) (initial_report E n) w = (Inr (), r1, w')"
      "res = Inr r1"
    | (raised) e r1 w1 where
      "validate_pr_try E n (headers_of tok) (base_dir_of n) (initial_report E n) w = (Inl e, r1, w1)"
      "res = Inl e" "persisted w' n = Some (Json (to_json (error_report e r1)))"
      "entered w' = entered w1" "trace w' = trace w1"
proof -
  obtain a r1 w1 where t: "validate_pr_try E n (headers_of tok) (base_dir_of n) (initial_report E n) w = (a, r1, w1)"
    by (cases "validate_pr_try E n (headers_of tok) (base_dir_of n) (initial_report E n) w")
  show thesis
  proof (cases a)
    case (Inr u)
    with run n t have "res = Inr r1" "w' = w1"
      by (simp_all add: validate_pr_def initial_report_def Let_def)
    with t Inr returned show thesis by simp
  next
    case (Inl e)
    from validate_pr_try_outcome [OF t] obtain t1 where t1: "files w1 (base_dir_of n) = Some t1"
      by blast
    define w2 where "w2 = w1\<lparr>files := (files w1)(base_dir_of n \<mapsto>
        t1(report_file \<mapsto> Json (to_json (error_report e r1))))\<rparr>"
    have "open_write (base_dir_of n) report_file (Json (to_json (error_report e r1))) w1 = Inr w2"
      using t1 by (simp add: open_write_Some w2_def)
    with run n t Inl have "res = Inl e" "w' = w2"
      by (simp_all add: validate_pr_def initial_report_def Let_def error_report_def)
    moreover have "persisted w2 n = Some (Json (to_json (error_report e r1)))"
      "entered w2 = entered w1" "trace w2 = trace w1"
      by (simp_all add: w2_def persisted_def tree_of_def)
    ultimately show thesis using raised t Inl by simp
  qed
qed

text \<open>Every run of \<open>validate_pr\<close> with an accepted \<open>pr_number\<close> is one of six.\<close>

lemma validate_pr_cases:
  assumes run: "validate_pr E (Some n) tok w = (res, w')" and n: "n \<noteq> 0"
  shows
    "(\<exists>e k R. res = Inl e \<and> R = error_report e (initial_report E n)
         \<and> persisted w' n = Some (Json (to_json R))
         \<and> entered w' = entered w @ k \<and> prefix k (take 2 pipeline))
     \<or> (res = Inr (skipped_report (initial_report E n)) \<and> persisted w' n = None
         \<and> files w' (base_dir_of n) = Some Map.empty \<and> entered w' = entered w)
     \<or> (\<exists>e R s. res = Inl e \<and> status R = ''error'' \<and> pr_number R = n
         \<and> timestamp R = now_isoformat E
         \<and> message R = Some ''Syntax validation failed''
         \<and> checks R = [(''syntax'', s)] \<and> reports_failure s
         \<and> persisted w' n = Some (Json (to_json R))
         \<and> entered w' = entered w @ take 3 pipeline)
     \<or> (\<exists>e R s i. res = Inl e \<and> status R = ''error'' \<and> pr_number R = n
         \<and> timestamp R = now_isoformat E
         \<and> message R = Some ''Import validation failed''
         \<and> checks R = [(''syntax'', s), (''imports'', i)]
         \<and> \<not> reports_failure s \<and> reports_failure i
         \<and> persisted w' n = Some (Json (to_json R))
         \<and> entered w' = entered w @ take 4 pipeline)
     \<or> (\<exists>e R s i c. res = Inl e \<and> status R = ''error'' \<and> pr_number R = n
         \<and> timestamp R = now_isoformat E
         \<and> message R = Some ''Structure validation failed''
         \<and> checks R = [(''syntax'', s), (''imports'', i), (''structure'', c)]
         \<and> \<not> reports_failure s \<and> \<not> reports_failure i \<and> reports_failure c
         \<and> persisted w' n = Some (Json (to_json R))
         \<and> entered w' = entered w @ pipeline)
     \<or> (\<exists>R s i c. res = Inr R \<and> status R = ''success'' \<and> pr_number R = n
         \<and> timestamp R = now_isoformat E
         \<and> message R = Some ''All validations passed''
         \<and> checks R = [(''syntax'', s), (''imports'', i), (''structure'', c)]
         \<and> \<not> reports_failure s \<and> \<not> reports_failure i \<and> \<not> reports_failure c
         \<and> persisted w' n = Some (Json (to_json R))
         \<and> entered w' = entered w @ pipeline)"
    (is "?early \<or> ?skip \<or> ?at_syntax \<or> ?at_imports \<or> ?at_structure \<or> ?success")
proof -
  let ?d = "base_dir_of n" and ?r0 = "initial_report E n"
  have r0: "checks ?r0 = []" "pr_number ?r0 = n" "timestamp ?r0 = now_isoformat E"
    "error ?r0 = None"
    by (simp_all add: initial_report_def)
  have p3: "take 2 pipeline @ [''validate_syntax''] = take 3 pipeline"
    and p4: "take 2 pipeline @ [''validate_syntax'', ''validate_imports''] = take 4 pipeline"
    and p5: "take 2 pipeline @ [''validate_syntax'', ''validate_imports'', ''validate_dag_structure'']
              = pipeline"
    by (simp_all add: pipeline_def)
  from run n show ?thesis
  proof (cases rule: validate_pr_exits)
    case (returned r1)
    from validate_pr_try_outcome [OF returned(1)]
    consider (skip) "r1 = skipped_report ?r0" "files w' ?d = Some Map.empty"
        "trace w' = trace w @ [HttpGet (pulls_url n), HttpGet (pulls_url n @ ''/files'')]"
      | (phase) dags py w6 t6 where "validation_phase E dags ?d py ?r0 w6 = (Inr (), r1, w')"
        "files w6 ?d = Some t6" "entered w6 = entered w @ take 2 pipeline"
      by blast
    then show ?thesis
    proof cases
      case skip
      then have "persisted w' n = None" "entered w' = entered w"
        by (simp_all add: persisted_def tree_of_def entered_def)
      with skip returned have ?skip by simp
      then show ?thesis by blast
    next
      case phase
      from validation_phase_outcome [OF phase(1) r0(1) phase(2)] r0
      obtain s i c where "\<not> reports_failure s" "\<not> reports_failure i" "\<not> reports_failure c"
        "checks r1 = [(''syntax'', s), (''imports'', i), (''structure'', c)]"
        "entered w' = entered w6 @ [''validate_syntax'', ''validate_imports'', ''validate_dag_structure'']"
        "status r1 = ''success''" "message r1 = Some ''All validations passed''"
        "files w' = (files w6)(?d \<mapsto> t6(report_file \<mapsto> Json (to_json r1)))"
        "pr_number r1 = n" "timestamp r1 = now_isoformat E"
        by auto
      with phase(3) returned(2) p5 have ?success
        by (simp add: persisted_written)
      then show ?thesis by blast
    qed
  next
    case (raised e r1 w1)
    let ?R = "error_report e r1"
    have R: "status ?R = ''error''" "pr_number ?R = pr_number r1" "timestamp ?R = timestamp r1"
      "message ?R = message r1" "checks ?R = checks r1"
      by (simp_all add: error_report_def)
    from validate_pr_try_outcome [OF raised(1)]
    consider (early) k where "r1 = ?r0" "entered w1 = entered w @ k" "prefix k (take 2 pipeline)"
      | (phase) dags py w6 t6 where "validation_phase E dags ?d py ?r0 w6 = (Inl e, r1, w1)"
        "files w6 ?d = Some t6" "entered w6 = entered w @ take 2 pipeline"
      by blast
    then show ?thesis
    proof cases
      case early
      with raised have ?early by simp
      then show ?thesis by blast
    next
      case phase
      from validation_phase_outcome [OF phase(1) r0(1) phase(2)] r0
      consider (a) s where "reports_failure s" "checks r1 = [(''syntax'', s)]"
          "entered w1 = entered w6 @ [''validate_syntax'']"
          "message r1 = Some ''Syntax validation failed''"
          "pr_number r1 = n" "timestamp r1 = now_isoformat E"
        | (b) s i where "\<not> reports_failure s" "reports_failure i"
          "checks r1 = [(''syntax'', s), (''imports'', i)]"
          "entered w1 = entered w6 @ [''validate_syntax'', ''validate_imports'']"
          "message r1 = Some ''Import validation failed''"
          "pr_number r1 = n" "timestamp r1 = now_isoformat E"
        | (c) s i c where "\<not> reports_failure s" "\<not> reports_failure i" "reports_failure c"
          "checks r1 = [(''syntax'', s), (''imports'', i), (''structure'', c)]"
          "entered w1 = entered w6 @ [''validate_syntax'', ''validate_imports'', ''validate_dag_structure'']"
          "message r1 = Some ''Structure validation failed''"
          "pr_number r1 = n" "timestamp r1 = now_isoformat E"
        by auto
      then show ?thesis
      proof cases
        case a
        with raised(2-4) phase(3) R p3 have ?at_syntax by auto
        then show ?thesis by blast
      next
        case b
        with raised(2-4) phase(3) R p4 have ?at_imports by auto
        then show ?thesis by blast
      next
        case c
        with raised(2-4) phase(3) R p5 have ?at_structure by auto
        then show ?thesis by blast
      qed
    qed
  qed
qed










lemma json_get_to_json:
  "json_get (to_json r) ''pr_number'' = Some (JInt (pr_number r))"
  "json_get (to_json r) ''timestamp'' = Some (JStr (timestamp r))"
  "json_get (to_json r) ''status'' = Some (JStr (status r))"
  "json_get (to_json r) ''checks'' = Some (JObj (map (\<lambda>(stage, c). (stage, check_to_json c)) (checks r)))"
  by (simp_all add: to_json_def)

lemma json_reports_failure_check [simp]:
  "json_reports_failure (check_to_json c) = reports_failure c"
  by (cases c) (auto simp: json_reports_failure_def split: list.splits option.splits)

lemma map_of_map_values:
  "map_of (map (\<lambda>p. (fst p, f (snd p))) xs) k = map_option f (map_of xs k)"
  by (induction xs) auto

lemma persisted_check_to_json:
  "persisted w n = Some (Json (to_json R)) \<Longrightarrow>
     persisted_check w n stage = map_option check_to_json (map_of (checks R) stage)"
  by (simp add: persisted_check_def persisted_field_def json_get_to_json
      case_prod_unfold map_of_map_values)

lemma prefix_take2_pipeline: "prefix k (take 2 pipeline) \<Longrightarrow> prefix k pipeline"
  using take_is_prefix [of 2 pipeline] by (rule prefix_order.trans [rotated])


text \<open>The definitions a concrete run unfolds to.\<close>

lemmas validator_defs =
  validate_pr_def validate_pr_try_def validation_phase_def
  base_dir_of_def headers_of_def os_path_exists_def makedirs_def rmtree_def
  fetch_pr_info_def fetch_pr_files_def changed_dags_of_def startswith_def endswith_def
  fetch_phase_def download_branch_archive_def copytree_def tree_of_def
  download_pr_file_def makedirs_write_def open_write_def environment_setup_def
  setup_virtual_environment_def initialize_test_database_def run_def run_checked_def
  validate_syntax_def validate_imports_def validate_dag_structure_def
  log_def path_join_def Let_def str_int_def str_nat.simps digit_def repos_url_def
  report_file_def to_json_def persisted_def persisted_field_def persisted_check_def
  json_reports_failure_def entered_def calls_def pipeline_def

lemmas demo_defs = demo_env_def dag_a_def dag_old_def readme_def empty_world_def compile_a_def
  import_check_7_def import_check_script_def

section \<open>The validator: results\<close>

text \<open>
  C1. A run in which the syntax stage reports a failure: pull request 7 changes
  \<open>dags/a.py\<close>, and \<open>py_compile\<close> fails on it. \<open>validate_pr\<close> raises
  \<open>Syntax errors in 1 file(s)\<close> and the remaining stages do not run; the persisted report
  carries the message \<open>Syntax validation failed\<close> and the failing file, but its status is
  \<open>error\<close>: the \<open>except\<close> clause overwrites the \<open>failed\<close> set three lines earlier.
\<close>

theorem syntax_failure_persists_error:
  "fst (validate_pr (demo_env [dag_a] [compile_a]) (Some 7) None empty_world)
     = Inl (Exception ''Syntax errors in 1 file(s)'')
   \<and> calls empty_world (snd (validate_pr (demo_env [dag_a] [compile_a]) (Some 7) None empty_world))
       = [''setup_virtual_environment'', ''initialize_test_database'', ''validate_syntax'']
   \<and> persisted_field
        (snd (validate_pr (demo_env [dag_a] [compile_a]) (Some 7) None
               empty_world)) 7 ''status'' = Some (JStr ''error'')
   \<and> persisted_field
        (snd (validate_pr (demo_env [dag_a] [compile_a]) (Some 7) None
               empty_world)) 7 ''message'' = Some (JStr ''Syntax validation failed'')
   \<and> persisted_field
        (snd (validate_pr (demo_env [dag_a] [compile_a]) (Some 7) None
               empty_world)) 7 ''error'' = Some (JStr ''Syntax errors in 1 file(s)'')
   \<and> persisted_check
        (snd (validate_pr (demo_env [dag_a] [compile_a]) (Some 7) None
               empty_world)) 7 ''syntax''
       = Some (JObj [(''passed'', JArr []),
                     (''failed'', JArr [JObj [(''file'', JStr ''dags/a.py''),
                                             (''error'', JStr ''SyntaxError: invalid syntax'')]])])"
proof -
  let ?run = "validate_pr (demo_env [dag_a] [compile_a]) (Some 7) None empty_world"
  have raised: "fst ?run = Inl (Exception ''Syntax errors in 1 file(s)'')"
    by (simp add: validator_defs demo_defs)
  have halted: "calls empty_world (snd ?run)
       = [''setup_virtual_environment'', ''initialize_test_database'', ''validate_syntax'']"
    by (simp add: validator_defs demo_defs)
  have written: "persisted_field (snd ?run) 7 ''status'' = Some (JStr ''error'')"
    "persisted_field (snd ?run) 7 ''message'' = Some (JStr ''Syntax validation failed'')"
    "persisted_field (snd ?run) 7 ''error'' = Some (JStr ''Syntax errors in 1 file(s)'')"
    by (simp_all add: validator_defs demo_defs)
  have stage: "persisted_check (snd ?run) 7 ''syntax''
       = Some (JObj [(''passed'', JArr []),
                     (''failed'', JArr [JObj [(''file'', JStr ''dags/a.py''),
                                             (''error'', JStr ''SyntaxError: invalid syntax'')]])])"
    by (simp add: validator_defs demo_defs)
  from raised halted written stage show ?thesis
    by (intro conjI)
qed

text \<open>
  C2. In every run the functions entered form an initial part of the fixed sequence
  provisioning, database, syntax, imports, structure. When the persisted report shows a
  failure of the syntax stage, neither \<open>validate_imports\<close> nor \<open>validate_dag_structure\<close>
  was entered; when it shows a failure of the import stage, \<open>validate_dag_structure\<close> was
  not entered.
\<close>

theorem stages_fail_fast:
  assumes run: "validate_pr E (Some n) github_token w = (res, w')" and n: "n \<noteq> 0"
  shows "prefix (calls w w') pipeline
    \<and> (\<forall>c. persisted_check w' n ''syntax'' = Some c \<longrightarrow> json_reports_failure c
           \<longrightarrow> ''validate_imports'' \<notin> set (calls w w')
               \<and> ''validate_dag_structure'' \<notin> set (calls w w'))
    \<and> (\<forall>c. persisted_check w' n ''imports'' = Some c \<longrightarrow> json_reports_failure c
           \<longrightarrow> ''validate_dag_structure'' \<notin> set (calls w w'))"
  using validate_pr_cases [OF run n]
proof (elim disjE exE conjE)
  fix e k R
  assume "R = error_report e (initial_report E n)" "persisted w' n = Some (Json (to_json R))"
    "entered w' = entered w @ k" "prefix k (take 2 pipeline)"
  then show ?thesis
    by (simp add: persisted_check_to_json calls_append prefix_take2_pipeline
        error_report_def initial_report_def)
next
  assume "persisted w' n = None" "entered w' = entered w"
  then show ?thesis
    by (simp add: persisted_check_def persisted_field_def calls_def)
next
  fix e R s
  assume "checks R = [(''syntax'', s)]" "persisted w' n = Some (Json (to_json R))"
    "entered w' = entered w @ take 3 pipeline"
  then show ?thesis
    by (simp add: persisted_check_to_json calls_append) (simp add: pipeline_def)
next
  fix e R s i
  assume "checks R = [(''syntax'', s), (''imports'', i)]" "\<not> reports_failure s"
    "persisted w' n = Some (Json (to_json R))" "entered w' = entered w @ take 4 pipeline"
  then show ?thesis
    by (simp add: persisted_check_to_json calls_append) (auto simp: pipeline_def)
next
  fix e R s i c
  assume "checks R = [(''syntax'', s), (''imports'', i), (''structure'', c)]"
    "\<not> reports_failure s" "\<not> reports_failure i"
    "persisted w' n = Some (Json (to_json R))" "entered w' = entered w @ pipeline"
  then show ?thesis
    by (auto simp: persisted_check_to_json calls_append)
next
  fix R s i c
  assume "checks R = [(''syntax'', s), (''imports'', i), (''structure'', c)]"
    "\<not> reports_failure s" "\<not> reports_failure i"
    "persisted w' n = Some (Json (to_json R))" "entered w' = entered w @ pipeline"
  then show ?thesis
    by (auto simp: persisted_check_to_json calls_append)
qed

theorem stages_fail_fast_witness:
  "(7::int) \<noteq> 0
   \<and> persisted_check (snd (validate_pr (demo_env [dag_a] [compile_a]) (Some 7) None empty_world))
        7 ''syntax''
       = Some (JObj [(''passed'', JArr []),
                     (''failed'', JArr [JObj [(''file'', JStr ''dags/a.py''),
                                             (''error'', JStr ''SyntaxError: invalid syntax'')]])])
   \<and> json_reports_failure
         (JObj [(''passed'', JArr []),
                (''failed'', JArr [JObj [(''file'', JStr ''dags/a.py''),
                                        (''error'', JStr ''SyntaxError: invalid syntax'')]])])
   \<and> ''validate_imports'' \<notin> set (calls empty_world
         (snd (validate_pr (demo_env [dag_a] [compile_a]) (Some 7) None empty_world)))
   \<and> ''validate_dag_structure'' \<notin> set (calls empty_world
         (snd (validate_pr (demo_env [dag_a] [compile_a]) (Some 7) None empty_world)))
   \<and> prefix (calls empty_world
         (snd (validate_pr (demo_env [dag_a] [compile_a]) (Some 7) None empty_world))) pipeline
   \<and> persisted_check
         (snd (validate_pr (demo_env [dag_a] [import_check_7]) (Some 7) None empty_world))
         7 ''imports''
       = Some (JObj [(''success'', JBool False), (''error'', JStr ''SyntaxError: invalid syntax'')])
   \<and> json_reports_failure
         (JObj [(''success'', JBool False), (''error'', JStr ''SyntaxError: invalid syntax'')])
   \<and> ''validate_dag_structure'' \<notin> set (calls empty_world
         (snd (validate_pr (demo_env [dag_a] [import_check_7]) (Some 7) None empty_world)))"
proof -
  let ?run = "validate_pr (demo_env [dag_a] [compile_a]) (Some 7) None empty_world"
  let ?run2 = "validate_pr (demo_env [dag_a] [import_check_7]) (Some 7) None empty_world"
  have n: "(7::int) \<noteq> 0" by simp
  have r: "?run = (fst ?run, snd ?run)" and r2: "?run2 = (fst ?run2, snd ?run2)" by simp_all
  have c: "persisted_check (snd ?run) 7 ''syntax''
       = Some (JObj [(''passed'', JArr []),
                     (''failed'', JArr [JObj [(''file'', JStr ''dags/a.py''),
                                             (''error'', JStr ''SyntaxError: invalid syntax'')]])])"
    by (simp add: validator_defs demo_defs)
  have f: "json_reports_failure
         (JObj [(''passed'', JArr []),
                (''failed'', JArr [JObj [(''file'', JStr ''dags/a.py''),
                                        (''error'', JStr ''SyntaxError: invalid syntax'')]])])"
    by (simp add: json_reports_failure_def)
  have c2: "persisted_check (snd ?run2) 7 ''imports''
       = Some (JObj [(''success'', JBool False), (''error'', JStr ''SyntaxError: invalid syntax'')])"
    by (simp add: validator_defs demo_defs)
  have f2: "json_reports_failure
         (JObj [(''success'', JBool False), (''error'', JStr ''SyntaxError: invalid syntax'')])"
    by (simp add: json_reports_failure_def)
  from stages_fail_fast [OF r n] stages_fail_fast [OF r2 n] c f c2 f2 n show ?thesis by simp
qed

text \<open>
  C3. When the two metadata requests succeed and no changed file is a DAG file,
  \<open>validate_pr\<close> returns the report with status \<open>skipped\<close>, and all it did outside
  itself is the two requests: the trace gains no subprocess and no function entry, the
  workspace is the fresh empty directory.
\<close>

theorem no_dag_files_skips:
  assumes n: "n \<noteq> 0"
    and info: "get_pr_info E (pulls_url n) (headers_of github_token) = Inr info"
    and prs: "get_pr_files E (pulls_url n @ ''/files'') (headers_of github_token) = Inr pr_files"
    and none: "changed_dags_of pr_files = []"
  shows "validate_pr E (Some n) github_token w =
           (Inr \<lparr> pr_number = n, timestamp = now_isoformat E, status = ''skipped'',
                   checks = [], message = Some ''No DAG files modified'', error = None \<rparr>,
            w\<lparr>files := (files w)(base_dir_of n \<mapsto> Map.empty),
              trace := trace w @ [HttpGet (pulls_url n), HttpGet (pulls_url n @ ''/files'')]\<rparr>)"
  using assms
  by (simp add: validate_pr_def validate_pr_try_def clean_step fetch_pr_info_def
      fetch_pr_files_def pulls_url_def log_def Let_def)

theorem no_dag_files_skips_witness:
  "(7::int) \<noteq> 0
   \<and> get_pr_info (demo_env [readme] []) (pulls_url 7) (headers_of None)
       = Inr \<lparr> title = ''Add DAG'', base_ref = ''main'', head_ref = ''feature'' \<rparr>
   \<and> get_pr_files (demo_env [readme] []) (pulls_url 7 @ ''/files'') (headers_of None) = Inr [readme]
   \<and> changed_dags_of [readme] = []
   \<and> validate_pr (demo_env [readme] []) (Some 7) None empty_world =
        (Inr \<lparr> pr_number = 7, timestamp = ''2025-06-01T12:00:00'', status = ''skipped'',
                checks = [], message = Some ''No DAG files modified'', error = None \<rparr>,
         \<lparr> files = [''/tmp/airflow_pr_7'' \<mapsto> Map.empty],
           trace = [HttpGet ''https://api.github.com/repos/colav/impactu_airflow/pulls/7'',
                    HttpGet ''https://api.github.com/repos/colav/impactu_airflow/pulls/7/files''] \<rparr>)"
proof -
  have n: "(7::int) \<noteq> 0" by simp
  have i: "get_pr_info (demo_env [readme] []) (pulls_url 7) (headers_of None)
       = Inr \<lparr> title = ''Add DAG'', base_ref = ''main'', head_ref = ''feature'' \<rparr>"
    by (simp add: demo_env_def)
  have p: "get_pr_files (demo_env [readme] []) (pulls_url 7 @ ''/files'') (headers_of None) = Inr [readme]"
    by (simp add: demo_env_def)
  have d: "changed_dags_of [readme] = []"
    by (simp add: changed_dags_of_def readme_def startswith_def)
  from no_dag_files_skips [OF n i p d, of empty_world] n i p d show ?thesis
    by (simp add: empty_world_def demo_env_def base_dir_of_def pulls_url_def repos_url_def
        GITHUB_API_BASE_def REPO_OWNER_def REPO_NAME_def str_int_def str_nat.simps digit_def)
qed





text \<open>
  C6. After a run with an accepted \<open>pr_number\<close> the report file is absent or holds one
  JSON object with the keys \<open>pr_number\<close>, \<open>timestamp\<close> and \<open>status\<close>, the status being
  one of \<open>running\<close>, \<open>skipped\<close>, \<open>success\<close>, \<open>failed\<close>, \<open>error\<close>.
\<close>

theorem persisted_report_well_formed:
  assumes run: "validate_pr E (Some n) github_token w = (res, w')" and n: "n \<noteq> 0"
  shows "persisted w' n = None
    \<or> (\<exists>kvs t s. persisted w' n = Some (Json (JObj kvs))
          \<and> map_of kvs ''pr_number'' = Some (JInt n)
          \<and> map_of kvs ''timestamp'' = Some (JStr t)
          \<and> map_of kvs ''status'' = Some (JStr s)
          \<and> s \<in> {''running'', ''skipped'', ''success'', ''failed'', ''error''})"
proof -
  have wf: "\<exists>kvs t s. persisted w' n = Some (Json (JObj kvs))
          \<and> map_of kvs ''pr_number'' = Some (JInt n)
          \<and> map_of kvs ''timestamp'' = Some (JStr t)
          \<and> map_of kvs ''status'' = Some (JStr s)
          \<and> s \<in> {''running'', ''skipped'', ''success'', ''failed'', ''error''}"
    if "persisted w' n = Some (Json (to_json R))" "pr_number R = n"
      "status R = ''error'' \<or> status R = ''success''" for R
    using that by (auto simp: to_json_def)
  have "persisted w' n = None
      \<or> (\<exists>R. persisted w' n = Some (Json (to_json R)) \<and> pr_number R = n
             \<and> (status R = ''error'' \<or> status R = ''success''))"
    using validate_pr_cases [OF run n]
    by (elim disjE exE conjE) (auto simp: error_report_def initial_report_def)
  with wf show ?thesis by blast
qed

theorem persisted_report_well_formed_witness:
  "(7::int) \<noteq> 0
   \<and> (persisted (snd (validate_pr (demo_env [dag_a] [compile_a]) (Some 7) None empty_world)) 7 = None
      \<or> (\<exists>kvs t s.
            persisted (snd (validate_pr (demo_env [dag_a] [compile_a]) (Some 7) None empty_world)) 7
              = Some (Json (JObj kvs))
            \<and> map_of kvs ''pr_number'' = Some (JInt 7)
            \<and> map_of kvs ''timestamp'' = Some (JStr t)
            \<and> map_of kvs ''status'' = Some (JStr s)
            \<and> s \<in> {''running'', ''skipped'', ''success'', ''failed'', ''error''}))
   \<and> persisted_field (snd (validate_pr (demo_env [dag_a] [compile_a]) (Some 7) None empty_world))
        7 ''timestamp'' = Some (JStr ''2025-06-01T12:00:00'')"
proof -
  let ?run = "validate_pr (demo_env [dag_a] [compile_a]) (Some 7) None empty_world"
  have n: "(7::int) \<noteq> 0" by simp
  have r: "?run = (fst ?run, snd ?run)" by simp
  have t: "persisted_field (snd ?run) 7 ''timestamp'' = Some (JStr ''2025-06-01T12:00:00'')"
    by (simp add: validator_defs demo_defs)
  from persisted_report_well_formed [OF r n] n t show ?thesis by simp
qed



text \<open>
  C10. A run that returns a report with status \<open>skipped\<close> leaves the workspace empty, and
  the report file is absent after a run exactly when the run was skipped; a run that returns
  normally is skipped or successful.
\<close>

theorem skipped_run_writes_no_report:
  assumes run: "validate_pr E (Some n) github_token w = (res, w')" and n: "n \<noteq> 0"
  shows "(\<forall>r. res = Inr r \<and> status r = ''skipped'' \<longrightarrow> files w' (base_dir_of n) = Some Map.empty)
    \<and> ((persisted w' n = None) = (\<exists>r. res = Inr r \<and> status r = ''skipped''))
    \<and> (\<forall>r. res = Inr r \<longrightarrow> status r = ''skipped'' \<or> status r = ''success'')"
  using validate_pr_cases [OF run n]
  by (elim disjE exE conjE) (simp_all add: skipped_report_def)

theorem skipped_run_writes_no_report_witness:
  "(7::int) \<noteq> 0
   \<and> fst (validate_pr (demo_env [readme] []) (Some 7) None stale_world)
       = Inr \<lparr> pr_number = 7, timestamp = ''2025-06-01T12:00:00'', status = ''skipped'',
                checks = [], message = Some ''No DAG files modified'', error = None \<rparr>
   \<and> persisted (snd (validate_pr (demo_env [readme] []) (Some 7) None stale_world)) 7 = None
   \<and> files (snd (validate_pr (demo_env [readme] []) (Some 7) None stale_world)) (base_dir_of 7)
       = Some Map.empty"
proof -
  let ?run = "validate_pr (demo_env [readme] []) (Some 7) None stale_world"
  have n: "(7::int) \<noteq> 0" by simp
  have r: "?run = (fst ?run, snd ?run)" by simp
  have s: "fst ?run
       = Inr \<lparr> pr_number = 7, timestamp = ''2025-06-01T12:00:00'', status = ''skipped'',
                checks = [], message = Some ''No DAG files modified'', error = None \<rparr>"
    by (simp add: validator_defs demo_defs stale_world_def)
  from skipped_run_writes_no_report [OF r n] n s show ?thesis by simp
qed

end
